theory Spec2Isabelle
  imports Complex_Main
begin

section \<open>Numbers, arrays and errors\<close>

text \<open>
  Pyrr computes on numpy arrays of double-precision floats. The embedding reads every
  float as a real number (exact arithmetic): rounding is outside the model. A fixed-shape
  array is a tuple: a quaternion is the four floats \<open>(x, y, z, w)\<close>, a 3-vector the three
  floats \<open>(x, y, z)\<close>. Where the numpy code is generic in the shape (module \<open>aambb\<close>,
  module \<open>vector\<close>) a 1-D array is a list of reals and a 2-D array the list of its rows.

  Python exceptions are values of the type \<open>error\<close>; a function that can raise returns
  \<open>error + 'a\<close>, with \<open>Inl\<close> for the exception. A float division by zero does not raise in
  numpy: it yields NaN or an infinity. The model has no such numbers, so a function whose
  result would hold them returns \<open>None\<close>.
\<close>

datatype error = TypeError | ValueError | NameError | AssertionError | IndexError

type_synonym vec3 = "real \<times> real \<times> real"

type_synonym quat = "real \<times> real \<times> real \<times> real"

section \<open>Module vector (not among the sources)\<close>

text \<open>
  Modelled from the spec: \<open>vector.squared_length\<close>, \<open>vector.length\<close> and
  \<open>vector.normalise\<close> live in \<open>pyrr/vector.py\<close>, which is missing. The spec names them as
  the squared Euclidean length, the Euclidean length and the normalisation of a tuple of
  any size; \<open>normalise\<close> on a zero-length vector divides by zero and lets NaN propagate.
\<close>

definition vector_squared_length :: "real list \<Rightarrow> real" where
  "vector_squared_length vec = sum_list (map (\<lambda>c. c * c) vec)"

definition vector_length :: "real list \<Rightarrow> real" where
  "vector_length vec = sqrt (vector_squared_length vec)"

definition vector_normalise :: "real list \<Rightarrow> real list option" where
  "vector_normalise vec =
     (if vector_length vec = 0 then None
      else Some (map (\<lambda>c. c / vector_length vec) vec))"

section \<open>Module quaternion\<close>

text \<open>
  \<open>assert\<close> raises AssertionError when its condition is false, unless the interpreter runs
  with \<open>-O\<close>, which removes every assertion. The flag \<open>debug\<close> is Python's \<open>__debug__\<close>:
  true in a normal run.
\<close>

definition py_assert :: "bool \<Rightarrow> bool \<Rightarrow> error + unit" where
  "py_assert debug cond = (if debug \<and> \<not> cond then Inl AssertionError else Inr ())"

text \<open>
  A name read inside a function of \<open>quaternion.py\<close> that is neither a parameter nor a
  local is looked up among the names the module binds at top level (its imports, the
  class \<open>index\<close> and its functions) and raises NameError when it is not there. The
  attributes \<open>x\<close>, \<open>y\<close>, \<open>z\<close>, \<open>w\<close> of the class \<open>index\<close> are not module-level names.
\<close>

definition quaternion_globals :: "string list" where
  "quaternion_globals =
     [''math'', ''numpy'', ''vector'', ''vector3'', ''vector4'', ''index'',
      ''create'', ''create_identity'', ''create_from_x_rotation'',
      ''create_from_y_rotation'', ''create_from_z_rotation'',
      ''create_from_axis_rotation'', ''create_from_eulers'',
      ''create_from_inverse_of_eulers'', ''cross'', ''is_zero_length'',
      ''is_non_zero_length'', ''squared_length'', ''length'', ''normalise'',
      ''get_rotation_angle'', ''get_rotation_axis'', ''dot'', ''conjugate'',
      ''power'', ''inverse'', ''negate'', ''apply_to_vector'']"

definition load_global :: "string \<Rightarrow> error + unit" where
  "load_global name = (if name \<in> set quaternion_globals then Inr () else Inl NameError)"

text \<open>\<open>numpy.linalg.norm(axis, ord = None)\<close> of a 1-D array is its 2-norm.\<close>

definition numpy_linalg_norm :: "real list \<Rightarrow> real" where
  "numpy_linalg_norm a = sqrt (sum_list (map (\<lambda>c. c * c) a))"

text \<open>
  \<open>create_from_axis_rotation\<close>: the assertion compares \<open>norm(axis) - 1.0\<close>, not its
  absolute value, with 0.01.
\<close>

definition create_from_axis_rotation :: "bool \<Rightarrow> vec3 \<Rightarrow> real \<Rightarrow> error + quat" where
  "create_from_axis_rotation debug axis theta =
     (case axis of (a0, a1, a2) \<Rightarrow>
        (case py_assert debug (numpy_linalg_norm [a0, a1, a2] - 1 < 1 / 100) of
           Inl e \<Rightarrow> Inl e
         | Inr _ \<Rightarrow>
             (let thetaOver2 = theta * (1 / 2);
                  sinThetaOver2 = sin thetaOver2
              in Inr (a0 * sinThetaOver2, a1 * sinThetaOver2, a2 * sinThetaOver2,
                      cos thetaOver2))))"

text \<open>\<open>cross\<close>: the product of two quaternions, component by component as the source has it.\<close>

fun cross :: "quat \<Rightarrow> quat \<Rightarrow> quat" where
  "cross (q1x, q1y, q1z, q1w) (q2x, q2y, q2z, q2w) =
     ((q1w * q2x) + (q1x * q2w) + (q1z * q2y) - (q1y * q2z),
      (q1w * q2y) + (q1y * q2w) + (q1x * q2z) - (q1z * q2x),
      (q1w * q2z) + (q1z * q2w) + (q1y * q2x) - (q1x * q2y),
      (q1w * q2w) - (q1x * q2x) - (q1y * q2y) - (q1z * q2z))"

text \<open>\<open>is_zero_length\<close>: the chained comparison \<open>q[0] == q[1] == q[2] == q[3] == 0.0\<close>.\<close>

fun is_zero_length :: "quat \<Rightarrow> bool" where
  "is_zero_length (q0, q1, q2, q3) = (q0 = q1 \<and> q1 = q2 \<and> q2 = q3 \<and> q3 = 0)"

definition is_non_zero_length :: "quat \<Rightarrow> bool" where
  "is_non_zero_length quat = (\<not> is_zero_length quat)"

fun squared_length :: "quat \<Rightarrow> real" where
  "squared_length (x, y, z, w) = vector_squared_length [x, y, z, w]"

fun length_quat :: "quat \<Rightarrow> real" where
  "length_quat (x, y, z, w) = vector_length [x, y, z, w]"

text \<open>
  \<open>get_rotation_axis\<close>: in the branch for \<open>1 - w**2 <= 0\<close> the source first asserts False;
  with assertions removed it prints a message and then writes into \<open>out\<close>, a name that is
  neither a parameter, a local nor a module-level name. The message on standard output is
  not modelled.
\<close>

fun get_rotation_axis :: "bool \<Rightarrow> quat \<Rightarrow> error + vec3" where
  "get_rotation_axis debug (q0, q1, q2, q3) =
     (let sinThetaOver2Sq = 1 - q3 ^ 2
      in if sinThetaOver2Sq \<le> 0
         then (case py_assert debug False of
                 Inl e \<Rightarrow> Inl e
               | Inr _ \<Rightarrow>
                   (case load_global ''out'' of
                      Inl e \<Rightarrow> Inl e
                    | Inr _ \<Rightarrow> Inr (0, 0, - 1)))
         else (let oneOverSinThetaOver2 = 1 / sqrt sinThetaOver2Sq
               in Inr (q0 * oneOverSinThetaOver2, q1 * oneOverSinThetaOver2,
                       q2 * oneOverSinThetaOver2)))"

text \<open>\<open>conjugate\<close>: negate x, y, z and keep w.\<close>

fun conjugate :: "quat \<Rightarrow> quat" where
  "conjugate (q0, q1, q2, q3) = (- q0, - q1, - q2, q3)"

text \<open>
  \<open>math.acos\<close> raises ValueError (math domain error) outside \<open>[-1, 1]\<close>.
\<close>

definition math_acos :: "real \<Rightarrow> error + real" where
  "math_acos x = (if - 1 \<le> x \<and> x \<le> 1 then Inr (arccos x) else Inl ValueError)"

text \<open>
  \<open>power\<close>: the first statement reads \<open>quat[ w ]\<close>, where \<open>w\<close> is a bare name (the later
  statements write \<open>index.w\<close>). The bare name is looked up as a global. Past that lookup
  the model follows the source with \<open>w\<close> as the index of the fourth component: the
  near-identity branch asserts False, then writes into the undefined name \<open>out\<close>; the
  other branch scales by \<open>sin(newAlpha) / sin(alpha)\<close>, which is never a division by zero
  there, since \<open>|w| \<le> 0.9999\<close>.
\<close>

fun power_quat :: "bool \<Rightarrow> quat \<Rightarrow> real \<Rightarrow> error + quat" where
  "power_quat debug (q0, q1, q2, q3) exponent =
     (case load_global ''w'' of
        Inl e \<Rightarrow> Inl e
      | Inr _ \<Rightarrow>
          if \<bar>q3\<bar> > 9999 / 10000
          then (case py_assert debug False of
                  Inl e \<Rightarrow> Inl e
                | Inr _ \<Rightarrow>
                    (case load_global ''out'' of
                       Inl e \<Rightarrow> Inl e
                     | Inr _ \<Rightarrow> Inr (q0, q1, q2, q3)))
          else (case math_acos q3 of
                  Inl e \<Rightarrow> Inl e
                | Inr alpha \<Rightarrow>
                    (let newAlpha = alpha * exponent;
                         multi = sin newAlpha / sin alpha
                     in Inr (q0 * multi, q1 * multi, q2 * multi, cos newAlpha))))"

text \<open>
  \<open>inverse\<close>: the conjugate divided, component by component, by the squared length. For
  the zero quaternion every component is \<open>0 / 0\<close>, NaN in numpy: the model returns \<open>None\<close>.
\<close>

definition inverse_quat :: "quat \<Rightarrow> quat option" where
  "inverse_quat quat =
     (if squared_length quat = 0 then None
      else (case conjugate quat of (c0, c1, c2, c3) \<Rightarrow>
              Some (c0 / squared_length quat, c1 / squared_length quat,
                    c2 / squared_length quat, c3 / squared_length quat)))"

text \<open>
  \<open>apply_to_vector\<close> and its nested function \<open>apply\<close>. \<open>apply\<close> is only called on an array
  of three components; it normalises the vector, lifts it to a quaternion with \<open>w = 0\<close>,
  forms \<open>cross(quat, cross(vec_quat, conjugate(quat)))\<close>, drops the last component and
  scales by the original length. A zero vector normalises to NaN, and so does the result.

  The branch for four components calls \<open>vector3.create_from_vector4\<close> and
  \<open>vector4.create_from_vector3\<close>, which are not among the sources: they are parameters of
  the model.
\<close>

definition apply_inner :: "quat \<Rightarrow> real list \<Rightarrow> real list option" where
  "apply_inner quat vec3 =
     (let len = vector_length vec3
      in case vector_normalise vec3 of
           None \<Rightarrow> None
         | Some vec3n \<Rightarrow>
             (let vec_quat = (vec3n ! 0, vec3n ! 1, vec3n ! 2, 0)
              in case cross quat (cross vec_quat (conjugate quat)) of
                   (r0, r1, r2, r3) \<Rightarrow> Some [r0 * len, r1 * len, r2 * len]))"

definition apply_to_vector ::
  "(real list \<Rightarrow> real list) \<Rightarrow> (real list \<Rightarrow> real list) \<Rightarrow> quat \<Rightarrow> real list
     \<Rightarrow> error + real list option" where
  "apply_to_vector create_from_vector4 create_from_vector3 quat vec =
     (if length vec = 3 then Inr (apply_inner quat vec)
      else if length vec = 4
      then Inr (map_option create_from_vector3
                  (apply_inner quat (create_from_vector4 vec)))
      else Inl ValueError)"

section \<open>Module aambb\<close>

text \<open>
  The functions of \<open>aambb.py\<close> take an optional buffer \<open>out\<close> and write into it, so the
  model passes a store: a list of cells, the address of an array being its index. A
  reference is an address; Python's \<open>None\<close> is \<open>None\<close>. \<open>_empty()\<close> allocates a new array of
  shape (2,3) whose contents are not initialised. \<open>out[:] = value\<close> overwrites the contents
  of the array at an address; the caller's buffer is taken to have the shape (2,3) of the
  value assigned. When a call raises, the store it leaves (at most one more array that
  nothing refers to) is dropped from the model.
\<close>

type_synonym addr = nat

datatype cell = Uninit | Arr "real list list"

type_synonym store = "cell list"

definition aambb_empty :: "store \<Rightarrow> addr \<times> store" where
  "aambb_empty s = (length s, s @ [Uninit])"

definition slice_assign :: "addr \<Rightarrow> real list list \<Rightarrow> store \<Rightarrow> store" where
  "slice_assign a rows s = s[a := Arr rows]"

text \<open>
  The numpy functions the module calls. \<open>numpy.absolute\<close> works element by element.
  \<open>numpy.amax(m, axis = 0)\<close> is the maximum over the rows, component by component, and
  raises ValueError on an array with no row.
\<close>

definition numpy_absolute :: "real list list \<Rightarrow> real list list" where
  "numpy_absolute m = map (map abs) m"

definition numpy_amax_axis0 :: "real list list \<Rightarrow> error + real list" where
  "numpy_amax_axis0 m =
     (case m of [] \<Rightarrow> Inl ValueError | r # rs \<Rightarrow> Inr (foldl (map2 max) r rs))"

text \<open>
  \<open>numpy.vstack(tup)\<close> has one positional parameter, the sequence of arrays to stack
  row-wise: \<open>concatenate([atleast_2d(m) for m in tup], 0)\<close>. The model receives the list of
  the positional arguments of a call. With one argument, a 2-D array is read as the
  sequence of its rows and a 1-D array as the sequence of its scalars, each of which
  becomes a row of one element; an empty sequence raises ValueError. With any other
  number of positional arguments the call raises TypeError before anything is stacked.
\<close>

datatype ndarray = A1 "real list" | A2 "real list list"

fun numpy_vstack :: "ndarray list \<Rightarrow> error + real list list" where
  "numpy_vstack [A1 v] = (if v = [] then Inl ValueError else Inr (map (\<lambda>c. [c]) v))"
| "numpy_vstack [A2 m] = (if m = [] then Inl ValueError else Inr m)"
| "numpy_vstack args = Inl TypeError"

text \<open>
  \<open>create_from_points\<close>: takes a fresh array when \<open>out\<close> is \<open>None\<close>, computes the length of
  the component-wise maximum of the absolute values, and assigns the rows
  \<open>[-length, -length, -length]\<close> and \<open>[length, length, length]\<close> to \<open>out[:]\<close>. The function
  body ends there: it has no \<open>return\<close> statement, so the value of the call is \<open>None\<close>.
\<close>

definition create_from_points ::
  "real list list \<Rightarrow> addr option \<Rightarrow> store \<Rightarrow> error + (addr option \<times> store)" where
  "create_from_points points out s =
     (case (case out of None \<Rightarrow> aambb_empty s | Some a \<Rightarrow> (a, s)) of (out1, s1) \<Rightarrow>
        (case numpy_amax_axis0 (numpy_absolute points) of
           Inl e \<Rightarrow> Inl e
         | Inr vec \<Rightarrow>
             (let len = vector_length vec
              in Inr (None,
                      slice_assign out1 [[- len, - len, - len], [len, len, len]] s1))))"

text \<open>\<open>create_from_bounds\<close>: calls \<open>numpy.vstack( min, max )\<close>, two positional arguments.\<close>

definition create_from_bounds ::
  "real list \<Rightarrow> real list \<Rightarrow> addr option \<Rightarrow> store \<Rightarrow> error + (addr option \<times> store)" where
  "create_from_bounds mn mx out s =
     (case numpy_vstack [A1 mn, A1 mx] of
        Inl e \<Rightarrow> Inl e
      | Inr bounds \<Rightarrow> create_from_points bounds out s)"

text \<open>
  \<open>create_from_aabbs\<close>: the array of boxes, of shape (N,2,3), is viewed with the shape
  (-1,3), the list of all corners.
\<close>

definition create_from_aabbs ::
  "real list list list \<Rightarrow> addr option \<Rightarrow> store \<Rightarrow> error + (addr option \<times> store)" where
  "create_from_aabbs aabbs out s = create_from_points (concat aabbs) out s"

text \<open>
  \<open>add_points\<close>: calls \<open>numpy.vstack( points, aabb[ 0 ], aabb[ 1 ] )\<close>, three positional
  arguments, and then repeats the body of \<open>create_from_points\<close>; it has no \<open>return\<close>
  statement either.
\<close>

definition add_points ::
  "real list list \<Rightarrow> real list list \<Rightarrow> addr option \<Rightarrow> store
     \<Rightarrow> error + (addr option \<times> store)" where
  "add_points aabb points out s =
     (case (case out of None \<Rightarrow> aambb_empty s | Some a \<Rightarrow> (a, s)) of (out1, s1) \<Rightarrow>
        (case aabb of
           mn # mx # _ \<Rightarrow>
             (case numpy_vstack [A2 points, A1 mn, A1 mx] of
                Inl e \<Rightarrow> Inl e
              | Inr values \<Rightarrow>
                  (case numpy_amax_axis0 (numpy_absolute values) of
                     Inl e \<Rightarrow> Inl e
                   | Inr vec \<Rightarrow>
                       (let len = vector_length vec
                        in Inr (None,
                                slice_assign out1
                                  [[- len, - len, - len], [len, len, len]] s1))))
         | _ \<Rightarrow> Inl IndexError))"

definition add_aabbs ::
  "real list list \<Rightarrow> real list list list \<Rightarrow> addr option \<Rightarrow> store
     \<Rightarrow> error + (addr option \<times> store)" where
  "add_aabbs aabb aabbs out s = add_points aabb (concat aabbs) out s"

text \<open>\<open>centre_point\<close>: \<open>(aabb[ 0 ] + aabb[ 1 ]) * 0.5\<close>, on the contents of a box.\<close>

definition centre_point :: "real list list \<Rightarrow> error + real list" where
  "centre_point aabb =
     (case aabb of
        mn # mx # _ \<Rightarrow> Inr (map (\<lambda>c. c * (1 / 2)) (map2 (+) mn mx))
      | _ \<Rightarrow> Inl IndexError)"

section \<open>Module geometric\_tests (not among the sources)\<close>

text \<open>
  Modelled from the spec: \<open>ray_intersect_aabb\<close> lives in \<open>pyrr/geometric_tests.py\<close>, which
  is missing; only its test is among the sources. The spec describes the slab method. On
  each axis the ray crosses the planes of the box at \<open>t = (bound - origin) / direction\<close>;
  when the direction component is zero the axis does not constrain \<open>t\<close> if the origin lies
  within the slab, and otherwise there is no intersection. The three intervals are
  intersected into \<open>[t_enter, t_exit]\<close>; there is no intersection when
  \<open>t_enter > t_exit\<close> or \<open>t_exit < 0\<close>; the point returned is the exit point
  \<open>origin + t_exit * direction\<close> when \<open>t_enter < 0\<close> and the entry point otherwise.

  A ray is the pair of its origin and its direction, a box the pair of its minimum and
  maximum corners. The spec's rays have a direction of unit length. For the zero
  direction no axis constrains \<open>t\<close> and the spec fixes no point: the model returns none.
\<close>

type_synonym ray = "vec3 \<times> vec3"

type_synonym aabb = "vec3 \<times> vec3"

datatype interval = Unbounded | Between real real

definition slab :: "real \<Rightarrow> real \<Rightarrow> real \<Rightarrow> real \<Rightarrow> interval option" where
  "slab mn mx origin_c direction_c =
     (if direction_c = 0
      then (if mn \<le> origin_c \<and> origin_c \<le> mx then Some Unbounded else None)
      else (let t1 = (mn - origin_c) / direction_c;
                t2 = (mx - origin_c) / direction_c
            in Some (Between (min t1 t2) (max t1 t2))))"

fun meet :: "interval \<Rightarrow> interval \<Rightarrow> interval" where
  "meet Unbounded i = i"
| "meet i Unbounded = i"
| "meet (Between a b) (Between c d) = Between (max a c) (min b d)"

fun slabs :: "ray \<Rightarrow> aabb \<Rightarrow> interval option" where
  "slabs ((ox, oy, oz), (dx, dy, dz)) ((mnx, mny, mnz), (mxx, mxy, mxz)) =
     (case slab mnx mxx ox dx of
        None \<Rightarrow> None
      | Some ix \<Rightarrow>
          (case slab mny mxy oy dy of
             None \<Rightarrow> None
           | Some iy \<Rightarrow>
               (case slab mnz mxz oz dz of
                  None \<Rightarrow> None
                | Some iz \<Rightarrow> Some (meet ix (meet iy iz)))))"

fun point_at :: "ray \<Rightarrow> real \<Rightarrow> vec3" where
  "point_at ((ox, oy, oz), (dx, dy, dz)) t = (ox + t * dx, oy + t * dy, oz + t * dz)"

definition ray_intersect_aabb :: "ray \<Rightarrow> aabb \<Rightarrow> vec3 option" where
  "ray_intersect_aabb ray box =
     (case slabs ray box of
        None \<Rightarrow> None
      | Some Unbounded \<Rightarrow> None
      | Some (Between t_enter t_exit) \<Rightarrow>
          if t_enter > t_exit \<or> t_exit < 0 then None
          else if t_enter < 0 then Some (point_at ray t_exit)
          else Some (point_at ray t_enter))"

section \<open>Properties of module quaternion\<close>

lemma squared_length_zero_iff:
  "squared_length (x, y, z, w) = 0 \<longleftrightarrow> x = 0 \<and> y = 0 \<and> z = 0 \<and> w = 0"
proof -
  have "squared_length (x, y, z, w) = x\<^sup>2 + y\<^sup>2 + z\<^sup>2 + w\<^sup>2"
    by (simp add: vector_squared_length_def power2_eq_square)
  moreover have "x\<^sup>2 + y\<^sup>2 + z\<^sup>2 + w\<^sup>2 = 0 \<longleftrightarrow> x = 0 \<and> y = 0 \<and> z = 0 \<and> w = 0"
  proof
    assume h: "x\<^sup>2 + y\<^sup>2 + z\<^sup>2 + w\<^sup>2 = 0"
    have "0 \<le> x\<^sup>2" "0 \<le> y\<^sup>2" "0 \<le> z\<^sup>2" "0 \<le> w\<^sup>2" by simp_all
    with h have "x\<^sup>2 = 0 \<and> y\<^sup>2 = 0 \<and> z\<^sup>2 = 0 \<and> w\<^sup>2 = 0" by linarith
    then show "x = 0 \<and> y = 0 \<and> z = 0 \<and> w = 0" by simp
  qed simp
  ultimately show ?thesis by simp
qed

text \<open>
  C9: \<open>conjugate\<close> is an involution: conjugating twice gives the quaternion back, and one
  conjugation negates x, y and z and leaves w as it is.
\<close>

theorem conjugate_involution:
  "conjugate (conjugate q) = q
   \<and> conjugate (x, y, z, w) = (- x, - y, - z, w)"
  by (cases q) simp

text \<open>
  C6: for every quaternion that is not zero, \<open>inverse\<close> returns the conjugate divided by
  the squared length, and \<open>cross\<close> of the quaternion with its inverse is the identity
  quaternion \<open>(0, 0, 0, 1)\<close>.
\<close>

theorem cross_inverse_identity:
  assumes "is_non_zero_length q"
  shows "\<exists>qi. inverse_quat q = Some qi \<and> cross q qi = (0, 0, 0, 1)"
proof -
  obtain x y z w where q: "q = (x, y, z, w)" by (cases q)
  define n where "n = squared_length q"
  from assms q have "\<not> (x = 0 \<and> y = 0 \<and> z = 0 \<and> w = 0)"
    by (auto simp: is_non_zero_length_def)
  then have n0: "n \<noteq> 0"
    unfolding n_def q using squared_length_zero_iff [of x y z w] by blast
  have nsq: "n = x * x + y * y + z * z + w * w"
    by (simp add: n_def q vector_squared_length_def)
  have inv: "inverse_quat q = Some (- x / n, - y / n, - z / n, w / n)"
    using n0 by (simp add: inverse_quat_def n_def [symmetric]) (simp add: q)
  have wcomp: "(w * (w / n)) - (x * (- x / n)) - (y * (- y / n)) - (z * (- z / n)) = 1"
  proof -
    have "(w * (w / n)) - (x * (- x / n)) - (y * (- y / n)) - (z * (- z / n))
          = (x * x + y * y + z * z + w * w) / n"
      by (simp add: add_divide_distrib)
    also have "\<dots> = 1" using n0 nsq by simp
    finally show ?thesis .
  qed
  have "cross q (- x / n, - y / n, - z / n, w / n) = (0, 0, 0, 1)"
    unfolding q cross.simps using wcomp by (simp add: field_simps)
  with inv show ?thesis by blast
qed

theorem cross_inverse_identity_witness:
  "is_non_zero_length (1, 2, 0, 2)
   \<and> (\<exists>qi. inverse_quat (1, 2, 0, 2) = Some qi \<and> cross (1, 2, 0, 2) qi = (0, 0, 0, 1))"
  using cross_inverse_identity [of "(1, 2, 0, 2)"]
  by (simp add: is_non_zero_length_def)

lemma sandwich_squared_length:
  "(case cross (x, y, z, w) (cross (p, q, r, 0) (conjugate (x, y, z, w))) of
      (r0, r1, r2, r3) \<Rightarrow> r0 * r0 + r1 * r1 + r2 * r2)
   = (x * x + y * y + z * z + w * w) * (x * x + y * y + z * z + w * w)
       * (p * p + q * q + r * r)"
  by (simp add: algebra_simps)

text \<open>
  C10: for a quaternion of length 1 and a vector of three components that is not zero,
  \<open>apply_to_vector\<close> returns a vector (no exception, no NaN) whose Euclidean length is the
  length of the input vector.
\<close>

theorem apply_to_vector_preserves_length:
  assumes unit: "length_quat quat = 1"
    and nz: "[a, b, c] \<noteq> [0, 0, 0]"
  shows "\<exists>res. apply_to_vector c4 c3 quat [a, b, c] = Inr (Some res)
           \<and> vector_length res = vector_length [a, b, c]"
proof -
  obtain x y z w where q: "quat = (x, y, z, w)" by (cases quat)
  define L where "L = vector_length [a, b, c]"
  have sq_nonneg: "0 \<le> a * a + b * b + c * c" by simp
  have L_def2: "L = sqrt (a * a + b * b + c * c)"
    by (simp add: L_def vector_length_def vector_squared_length_def)
  have Lsq: "L * L = a * a + b * b + c * c"
    unfolding L_def2 using sq_nonneg by simp
  have sq_pos: "0 < a * a + b * b + c * c"
  proof -
    from nz have "a \<noteq> 0 \<or> b \<noteq> 0 \<or> c \<noteq> 0" by simp
    then have "0 < a * a \<or> 0 < b * b \<or> 0 < c * c"
      by (simp add: zero_less_mult_iff) (metis linorder_neqE_linordered_idom)
    moreover have "0 \<le> a * a" "0 \<le> b * b" "0 \<le> c * c" by simp_all
    ultimately show ?thesis by linarith
  qed
  then have Lpos: "0 < L" unfolding L_def2 by simp
  have N: "x * x + y * y + z * z + w * w = 1"
    using unit by (simp add: q vector_length_def vector_squared_length_def)
  have norm: "vector_normalise [a, b, c] = Some [a / L, b / L, c / L]"
    using Lpos by (simp add: vector_normalise_def L_def [symmetric])
  obtain r0 r1 r2 r3 where
    r: "cross (x, y, z, w) (cross (a / L, b / L, c / L, 0) (conjugate (x, y, z, w)))
        = (r0, r1, r2, r3)"
    using prod_cases4 by blast
  have "(a / L) * (a / L) + (b / L) * (b / L) + (c / L) * (c / L)
        = (a * a + b * b + c * c) / (L * L)"
    by (simp add: add_divide_distrib)
  also have "\<dots> = 1" using sq_pos by (simp add: Lsq)
  finally have unit_vec: "(a / L) * (a / L) + (b / L) * (b / L) + (c / L) * (c / L) = 1" .
  have rsq: "r0 * r0 + r1 * r1 + r2 * r2 = 1"
    using sandwich_squared_length [of x y z w "a / L" "b / L" "c / L"]
    unfolding r N unit_vec by simp
  have res: "apply_to_vector c4 c3 quat [a, b, c] = Inr (Some [r0 * L, r1 * L, r2 * L])"
    unfolding apply_to_vector_def apply_inner_def q
    using norm r by (simp add: L_def [symmetric] del: cross.simps conjugate.simps)
  have "vector_squared_length [r0 * L, r1 * L, r2 * L]
        = (r0 * r0 + r1 * r1 + r2 * r2) * (L * L)"
    by (simp add: vector_squared_length_def algebra_simps)
  also have "\<dots> = L * L" using rsq by simp
  finally have "vector_length [r0 * L, r1 * L, r2 * L] = sqrt (L * L)"
    by (simp add: vector_length_def)
  also have "\<dots> = L" using Lpos by simp
  finally have "vector_length [r0 * L, r1 * L, r2 * L] = vector_length [a, b, c]"
    by (simp add: L_def)
  with res show ?thesis by blast
qed

theorem apply_to_vector_preserves_length_witness:
  "length_quat (0, 0, 1, 0) = 1 \<and> [3, 0, 4] \<noteq> [0, 0, 0 :: real]
   \<and> (\<exists>res. apply_to_vector (take 3) (\<lambda>v. v @ [0]) (0, 0, 1, 0) [3, 0, 4]
                 = Inr (Some res)
           \<and> vector_length res = vector_length [3, 0, 4])"
  using apply_to_vector_preserves_length [of "(0, 0, 1, 0)" 3 0 4 "take 3" "\<lambda>v. v @ [0]"]
  by (simp add: vector_length_def vector_squared_length_def)

subsection \<open>The degenerate branches and the precondition\<close>

lemma power_quat_raises: "power_quat debug quat exponent = Inl NameError"
  by (cases quat) (simp add: load_global_def quaternion_globals_def)

text \<open>
  C3: on the identity quaternion \<open>(0, 0, 0, 1)\<close> with exponent 2, where the quaternion
  itself is expected back, \<open>power\<close> raises NameError, with assertions enabled or not: the
  bare name \<open>w\<close> in its first statement is not defined. The same happens on a quaternion
  away from the identity, here \<open>(1, 0, 0, 0)\<close>.
\<close>

theorem power_identity_name_error:
  "power_quat True (0, 0, 0, 1) 2 = Inl NameError
   \<and> power_quat False (0, 0, 0, 1) 2 = Inl NameError
   \<and> power_quat True (1, 0, 0, 0) 2 = Inl NameError"
  by (simp add: load_global_def quaternion_globals_def)

lemma get_rotation_axis_regular:
  "0 < 1 - w\<^sup>2 \<Longrightarrow>
   get_rotation_axis debug (x, y, z, w)
     = Inr (x / sqrt (1 - w\<^sup>2), y / sqrt (1 - w\<^sup>2), z / sqrt (1 - w\<^sup>2))"
  by (simp add: Let_def)

lemma get_rotation_axis_degenerate:
  "1 - w\<^sup>2 \<le> 0 \<Longrightarrow>
   get_rotation_axis debug (x, y, z, w)
     = (if debug then Inl AssertionError else Inl NameError)"
  by (simp add: Let_def py_assert_def load_global_def quaternion_globals_def)

text \<open>
  C4: on the identity quaternion \<open>(0, 0, 0, 1)\<close>, where \<open>1 - w\<^sup>2 = 0\<close> and the default axis
  \<open>(0, 0, -1)\<close> is expected, \<open>get_rotation_axis\<close> raises AssertionError; with assertions
  removed it raises NameError at the undefined name \<open>out\<close>.
\<close>

theorem get_rotation_axis_identity_raises:
  "get_rotation_axis True (0, 0, 0, 1) = Inl AssertionError
   \<and> get_rotation_axis False (0, 0, 0, 1) = Inl NameError"
  by (simp add: py_assert_def load_global_def quaternion_globals_def)

lemma create_from_axis_rotation_fails_iff:
  "(\<exists>e. create_from_axis_rotation debug (a0, a1, a2) theta = Inl e)
   \<longleftrightarrow> debug \<and> 1 / 100 \<le> numpy_linalg_norm [a0, a1, a2] - 1"
  by (auto simp: create_from_axis_rotation_def py_assert_def Let_def split: if_splits)

lemma create_from_axis_rotation_result:
  "numpy_linalg_norm [a0, a1, a2] - 1 < 1 / 100 \<Longrightarrow>
   create_from_axis_rotation debug (a0, a1, a2) theta
     = Inr (a0 * sin (theta / 2), a1 * sin (theta / 2), a2 * sin (theta / 2),
            cos (theta / 2))"
  by (simp add: create_from_axis_rotation_def py_assert_def Let_def)

text \<open>
  C5: the axis \<open>(0.5, 0, 0)\<close> has length 0.5, which differs from 1.0 by more than 0.01,
  and \<open>create_from_axis_rotation\<close>, with assertions enabled, does not fail on it: for the
  angle \<open>\<pi>\<close> it returns the quaternion \<open>(0.5, 0, 0, 0)\<close>.
\<close>

theorem create_from_axis_rotation_short_axis:
  "numpy_linalg_norm [1 / 2, 0, 0] = 1 / 2
   \<and> create_from_axis_rotation True (1 / 2, 0, 0) pi = Inr (1 / 2, 0, 0, 0)"
  by (simp add: create_from_axis_rotation_def py_assert_def numpy_linalg_norm_def
      real_sqrt_divide)

section \<open>Properties of module aambb\<close>

lemma create_from_points_result:
  "create_from_points points out s =
     (case points of
        [] \<Rightarrow> Inl ValueError
      | p # ps \<Rightarrow>
          (let r = vector_length (foldl (map2 max) (map abs p) (map (map abs) ps))
           in Inr (None,
                   (case out of
                      None \<Rightarrow> s @ [Arr [[- r, - r, - r], [r, r, r]]]
                    | Some a \<Rightarrow> s[a := Arr [[- r, - r, - r], [r, r, r]]]))))"
  by (cases points; cases out)
     (simp_all add: create_from_points_def aambb_empty_def numpy_amax_axis0_def
        numpy_absolute_def slice_assign_def Let_def)

lemma create_from_bounds_raises: "create_from_bounds mn mx out s = Inl TypeError"
  by (simp add: create_from_bounds_def)

lemma add_points_raises: "isl (add_points aabb points out s)"
  by (cases out; cases aabb; (cases "tl aabb")?)
     (auto simp: add_points_def aambb_empty_def split: list.splits)

lemma add_aabbs_raises: "isl (add_aabbs aabb aabbs out s)"
  by (simp add: add_aabbs_def add_points_raises)

lemma centre_point_symmetric: "centre_point [[- r, - r, - r], [r, r, r]] = Inr [0, 0, 0]"
  by (simp add: centre_point_def)

text \<open>
  C1: for the single point \<open>(1, 0, 0)\<close> and no output buffer, \<open>create_from_points\<close> builds
  the box \<open>[(-1,-1,-1), (1,1,1)]\<close> in a fresh array (address 0 of the store) but the value
  of the call is \<open>None\<close>, not that array.
\<close>

theorem create_from_points_returns_none:
  "create_from_points [[1, 0, 0]] None [] = Inr (None, [Arr [[- 1, - 1, - 1], [1, 1, 1]]])"
  by (simp add: create_from_points_result vector_length_def vector_squared_length_def)

text \<open>
  What holds of the code: when \<open>create_from_points\<close> does not raise, the box it leaves in
  its output array (the caller's buffer, or the fresh array when none is passed) has a
  minimum corner that is the negation of its maximum corner, and \<open>centre_point\<close> of those
  contents is \<open>(0, 0, 0)\<close>. \<open>create_from_aabbs\<close> is \<open>create_from_points\<close> on the corners.
\<close>

lemma create_from_points_written_box_centred:
  assumes valid: "\<forall>a. out = Some a \<longrightarrow> a < length s"
    and run: "create_from_points points out s = Inr (ret, s')"
  shows "\<exists>mn mx. s' ! (case out of None \<Rightarrow> length s | Some a \<Rightarrow> a) = Arr [mn, mx]
           \<and> mn = map uminus mx \<and> centre_point [mn, mx] = Inr [0, 0, 0]"
proof (cases points)
  case Nil
  with run show ?thesis by (simp add: create_from_points_result)
next
  case (Cons p ps)
  define r where "r = vector_length (foldl (map2 max) (map abs p) (map (map abs) ps))"
  from run Cons have s': "s' = (case out of
                    None \<Rightarrow> s @ [Arr [[- r, - r, - r], [r, r, r]]]
                  | Some a \<Rightarrow> s[a := Arr [[- r, - r, - r], [r, r, r]]])"
    unfolding r_def by (auto simp: create_from_points_result Let_def)
  have "s' ! (case out of None \<Rightarrow> length s | Some a \<Rightarrow> a) = Arr [[- r, - r, - r], [r, r, r]]"
    using valid unfolding s' by (cases out) simp_all
  then show ?thesis
    by (intro exI [of _ "[- r, - r, - r]"] exI [of _ "[r, r, r]"])
       (simp add: centre_point_symmetric)
qed

text \<open>
  C7: \<open>create_from_bounds\<close> on the corners \<open>(-1,-1,-1)\<close> and \<open>(1,1,1)\<close> produces no AAMBB
  whose centre could be taken: the call raises TypeError at \<open>numpy.vstack\<close>, which is given
  two positional arguments. \<open>create_from_aabbs\<close> on the box \<open>[(-2,0,0), (1,0,0)]\<close> with no
  output buffer builds \<open>[(-2,-2,-2), (2,2,2)]\<close> in a fresh array, but the value of the call
  is \<open>None\<close>, so there is no result to hand to \<open>centre_point\<close>.
\<close>

theorem create_from_bounds_type_error:
  "create_from_bounds [- 1, - 1, - 1] [1, 1, 1] None [] = Inl TypeError
   \<and> create_from_aabbs [[[- 2, 0, 0], [1, 0, 0]]] None []
       = Inr (None, [Arr [[- 2, - 2, - 2], [2, 2, 2]]])"
  by (simp add: create_from_bounds_def create_from_aabbs_def create_from_points_result
      vector_length_def vector_squared_length_def)

text \<open>
  C8: growing the box \<open>[(-1,-1,-1), (1,1,1)]\<close> by the point \<open>(0, 0, 0)\<close> with \<open>add_points\<close>,
  or by the box \<open>[(0,0,0), (0,0,0)]\<close> with \<open>add_aabbs\<close>, produces no box at all: the call
  raises TypeError at \<open>numpy.vstack\<close>, which is given three positional arguments.
\<close>

theorem add_points_type_error:
  "add_points [[- 1, - 1, - 1], [1, 1, 1]] [[0, 0, 0]] None [] = Inl TypeError
   \<and> add_aabbs [[- 1, - 1, - 1], [1, 1, 1]] [[[0, 0, 0], [0, 0, 0]]] None [] = Inl TypeError"
  by (simp add: add_points_def add_aabbs_def aambb_empty_def)

section \<open>Properties of ray\_intersect\_aabb\<close>

lemma slab_inside:
  assumes "mn < c" and "c < mx"
  shows "(d = 0 \<and> slab mn mx c d = Some Unbounded)
         \<or> (d \<noteq> 0 \<and> (\<exists>a b. slab mn mx c d = Some (Between a b) \<and> a < 0 \<and> 0 < b))"
proof (cases "d = 0")
  case True
  with assms show ?thesis by (simp add: slab_def)
next
  case False
  from assms have neg: "mn - c < 0" and pos: "0 < mx - c" by simp_all
  show ?thesis
  proof (cases "0 < d")
    case True
    with neg pos have "(mn - c) / d < 0" "0 < (mx - c) / d"
      by (simp_all add: divide_less_0_iff zero_less_divide_iff)
    then show ?thesis using False by (simp add: slab_def Let_def min_def max_def)
  next
    case d: False
    with False have "d < 0" by simp
    with neg pos have "0 < (mn - c) / d" "(mx - c) / d < 0"
      by (simp_all add: divide_less_0_iff zero_less_divide_iff)
    then show ?thesis using False by (simp add: slab_def Let_def min_def max_def)
  qed
qed

lemma meet_straddles:
  "i = Unbounded \<or> (\<exists>a b. i = Between a b \<and> a < 0 \<and> 0 < b) \<Longrightarrow>
   j = Unbounded \<or> (\<exists>a b. j = Between a b \<and> a < 0 \<and> 0 < b) \<Longrightarrow>
   (meet i j = Unbounded \<and> i = Unbounded \<and> j = Unbounded)
   \<or> (\<exists>a b. meet i j = Between a b \<and> a < 0 \<and> 0 < b)"
  by (cases i; cases j) auto

lemma ray_intersect_aabb_exit_convention:
  assumes "slabs ray box = Some (Between t_enter t_exit)"
    and "t_enter \<le> t_exit" and "0 \<le> t_exit"
  shows "ray_intersect_aabb ray box
         = Some (point_at ray (if t_enter < 0 then t_exit else t_enter))"
  using assms by (simp add: ray_intersect_aabb_def)

lemma ray_intersect_aabb_from_outside:
  "ray_intersect_aabb ((2, 2, 2), (- 1, - 1, - 1)) ((- 1, - 1, - 1), (1, 1, 1))
     = Some (1, 1, 1)"
  by (simp add: ray_intersect_aabb_def slab_def)

text \<open>
  C2: for a ray whose origin lies strictly inside the box (and whose direction is not the
  zero vector) the interval \<open>[t_enter, t_exit]\<close> has \<open>t_enter < 0 < t_exit\<close>, and
  \<open>ray_intersect_aabb\<close> returns the exit point \<open>origin + t_exit * direction\<close>, which is not
  the entry point. For the box \<open>[(-1,-1,-1), (1,1,1)]\<close> and the ray from \<open>(0.5, 0.5, 0)\<close>
  in the direction \<open>(0, 0, -1)\<close> the point returned is \<open>(0.5, 0.5, -1)\<close>.
\<close>

theorem ray_inside_returns_exit:
  "(mnx < ox \<and> ox < mxx \<and> mny < oy \<and> oy < mxy \<and> mnz < oz \<and> oz < mxz
      \<and> (dx, dy, dz) \<noteq> (0, 0, 0)
    \<longrightarrow> (\<exists>t_enter t_exit.
           slabs ((ox, oy, oz), (dx, dy, dz)) ((mnx, mny, mnz), (mxx, mxy, mxz))
             = Some (Between t_enter t_exit)
           \<and> t_enter < 0 \<and> 0 < t_exit
           \<and> ray_intersect_aabb ((ox, oy, oz), (dx, dy, dz)) ((mnx, mny, mnz), (mxx, mxy, mxz))
               = Some (ox + t_exit * dx, oy + t_exit * dy, oz + t_exit * dz)
           \<and> (ox + t_exit * dx, oy + t_exit * dy, oz + t_exit * dz)
               \<noteq> (ox + t_enter * dx, oy + t_enter * dy, oz + t_enter * dz)))
   \<and> ray_intersect_aabb ((1 / 2, 1 / 2, 0), (0, 0, - 1)) ((- 1, - 1, - 1), (1, 1, 1))
       = Some (1 / 2, 1 / 2, - 1)"
proof (intro conjI impI)
  assume h: "mnx < ox \<and> ox < mxx \<and> mny < oy \<and> oy < mxy \<and> mnz < oz \<and> oz < mxz
      \<and> (dx, dy, dz) \<noteq> (0, 0, 0)"
  let ?ray = "((ox, oy, oz), (dx, dy, dz))"
  let ?box = "((mnx, mny, mnz), (mxx, mxy, mxz))"
  from h have sx: "(dx = 0 \<and> slab mnx mxx ox dx = Some Unbounded)
         \<or> (dx \<noteq> 0 \<and> (\<exists>a b. slab mnx mxx ox dx = Some (Between a b) \<and> a < 0 \<and> 0 < b))"
    using slab_inside by blast
  from h have sy: "(dy = 0 \<and> slab mny mxy oy dy = Some Unbounded)
         \<or> (dy \<noteq> 0 \<and> (\<exists>a b. slab mny mxy oy dy = Some (Between a b) \<and> a < 0 \<and> 0 < b))"
    using slab_inside by blast
  from h have sz: "(dz = 0 \<and> slab mnz mxz oz dz = Some Unbounded)
         \<or> (dz \<noteq> 0 \<and> (\<exists>a b. slab mnz mxz oz dz = Some (Between a b) \<and> a < 0 \<and> 0 < b))"
    using slab_inside by blast
  obtain ix iy iz where
    ix: "slab mnx mxx ox dx = Some ix" and iy: "slab mny mxy oy dy = Some iy"
    and iz: "slab mnz mxz oz dz = Some iz"
    using sx sy sz by blast
  have gx: "ix = Unbounded \<or> (\<exists>a b. ix = Between a b \<and> a < 0 \<and> 0 < b)"
    using sx ix by auto
  have gy: "iy = Unbounded \<or> (\<exists>a b. iy = Between a b \<and> a < 0 \<and> 0 < b)"
    using sy iy by auto
  have gz: "iz = Unbounded \<or> (\<exists>a b. iz = Between a b \<and> a < 0 \<and> 0 < b)"
    using sz iz by auto
  have some_bounded: "ix \<noteq> Unbounded \<or> iy \<noteq> Unbounded \<or> iz \<noteq> Unbounded"
    using h sx sy sz ix iy iz by auto
  have myz: "(meet iy iz = Unbounded \<and> iy = Unbounded \<and> iz = Unbounded)
      \<or> (\<exists>a b. meet iy iz = Between a b \<and> a < 0 \<and> 0 < b)"
    using meet_straddles [OF gy gz] .
  then have gyz: "meet iy iz = Unbounded \<or> (\<exists>a b. meet iy iz = Between a b \<and> a < 0 \<and> 0 < b)"
    by blast
  have "(meet ix (meet iy iz) = Unbounded \<and> ix = Unbounded \<and> meet iy iz = Unbounded)
      \<or> (\<exists>a b. meet ix (meet iy iz) = Between a b \<and> a < 0 \<and> 0 < b)"
    using meet_straddles [OF gx gyz] .
  with myz some_bounded obtain te tx where
    m: "meet ix (meet iy iz) = Between te tx" and te: "te < 0" and tx: "0 < tx"
    by auto
  have sl: "slabs ?ray ?box = Some (Between te tx)"
    using ix iy iz m by simp
  have res: "ray_intersect_aabb ?ray ?box
      = Some (ox + tx * dx, oy + tx * dy, oz + tx * dz)"
    using te tx by (simp add: ray_intersect_aabb_def sl del: slabs.simps)
  have ne: "(ox + tx * dx, oy + tx * dy, oz + tx * dz)
      \<noteq> (ox + te * dx, oy + te * dy, oz + te * dz)"
    using h te tx by auto
  from sl te tx res ne
  show "\<exists>t_enter t_exit.
           slabs ?ray ?box = Some (Between t_enter t_exit)
           \<and> t_enter < 0 \<and> 0 < t_exit
           \<and> ray_intersect_aabb ?ray ?box
               = Some (ox + t_exit * dx, oy + t_exit * dy, oz + t_exit * dz)
           \<and> (ox + t_exit * dx, oy + t_exit * dy, oz + t_exit * dz)
               \<noteq> (ox + t_enter * dx, oy + t_enter * dy, oz + t_enter * dz)"
    by blast
next
  show "ray_intersect_aabb ((1 / 2, 1 / 2, 0), (0, 0, - 1)) ((- 1, - 1, - 1), (1, 1, 1))
       = Some (1 / 2, 1 / 2, - 1)"
    by (simp add: ray_intersect_aabb_def slab_def)
qed

theorem ray_inside_returns_exit_witness:
  "(- 1 :: real) < 1 / 2 \<and> (1 / 2 :: real) < 1 \<and> (- 1 :: real) < 0 \<and> (0 :: real) < 1
   \<and> (0, 0, - 1) \<noteq> (0, 0, 0 :: real)
   \<and> slabs ((1 / 2, 1 / 2, 0), (0, 0, - 1)) ((- 1, - 1, - 1), (1, 1, 1))
        = Some (Between (- 1) 1)
   \<and> ray_intersect_aabb ((1 / 2, 1 / 2, 0), (0, 0, - 1)) ((- 1, - 1, - 1), (1, 1, 1))
        = Some (1 / 2 + 1 * 0, 1 / 2 + 1 * 0, 0 + 1 * (- 1))"
  using ray_inside_returns_exit [of "- 1" "1 / 2" 1 "- 1" "1 / 2" 1 "- 1" 0 1 0 0 "- 1"]
  by (simp add: slab_def)

end
